theory Spec2Isabelle
  imports Main
begin

section \<open>The HTTP layer of module-update-router (routes.go)\<close>

text \<open>
  The handlers of routes.go are modelled as functions from the server's collaborators, the
  request and the response writer to an outcome: the response writer after the handler has
  returned, together with the calls the handler made on its collaborators, or a panic.
\<close>

subsection \<open>Errors\<close>

text \<open>
  A Go \<open>error\<close> is known to the handlers only through its \<open>Error()\<close> text. An error of a
  collaborator carries that text; a \<open>*strconv.NumError\<close> carries its fields \<open>Func\<close>,
  \<open>Num\<close> and the text of \<open>Err\<close>, and renders them as the library does:
  \<open>"strconv." + Func + ": parsing " + Quote(Num) + ": " + Err.Error()\<close>.
  \<open>strconv.Quote\<close> is a parameter.
\<close>

datatype error = ErrText string | NumError string string string

fun Error :: "(string \<Rightarrow> string) \<Rightarrow> error \<Rightarrow> string" where
  "Error quote (ErrText t) = t"
| "Error quote (NumError func num err) =
     ''strconv.'' @ func @ '': parsing '' @ quote num @ '': '' @ err"

abbreviation ErrSyntax :: string where "ErrSyntax \<equiv> ''invalid syntax''"
abbreviation ErrRange :: string where "ErrRange \<equiv> ''value out of range''"

subsection \<open>strconv.ParseInt(s, 10, 64)\<close>

text \<open>
  The loop of \<open>strconv.ParseUint\<close> at base 10 and bit size 64: a byte that is not a decimal
  digit is a syntax error; \<open>n >= cutoff\<close> means that \<open>n * 10\<close> overflows 64 bits, and
  \<open>n1 > maxVal\<close> that adding the digit does. The bytes are read from left to right, and
  the first failure decides.
\<close>

definition is_digit :: "char \<Rightarrow> bool" where
  "is_digit c = (of_char (CHR ''0'') \<le> (of_char c :: nat) \<and> (of_char c :: nat) \<le> of_char (CHR ''9''))"

definition digit_val :: "char \<Rightarrow> nat" where
  "digit_val c = of_char c - of_char (CHR ''0'')"

definition maxVal :: nat where "maxVal = 2 ^ 64 - 1"

definition cutoff10 :: nat where "cutoff10 = maxVal div 10 + 1"

fun ParseUint_loop :: "string \<Rightarrow> nat \<Rightarrow> string + nat" where
  "ParseUint_loop [] n = Inr n"
| "ParseUint_loop (c # cs) n =
     (if \<not> is_digit c then Inl ErrSyntax
      else if n \<ge> cutoff10 then Inl ErrRange
      else (let n1 = n * 10 + digit_val c
            in if n1 > maxVal then Inl ErrRange else ParseUint_loop cs n1))"

definition ParseUint :: "string \<Rightarrow> string + nat" where
  "ParseUint s = (if s = [] then Inl ErrSyntax else ParseUint_loop s 0)"

text \<open>
  \<open>ParseInt\<close>: the empty string is a syntax error; one leading sign is taken off; a syntax
  error of \<open>ParseUint\<close> is returned with \<open>Func\<close> and \<open>Num\<close> rewritten; a range error
  of \<open>ParseUint\<close> comes with the value \<open>maxVal\<close>, which the range check of \<open>ParseInt\<close>
  then rejects. The cutoff of the signed range is \<open>2 ^ 63\<close>.
\<close>

definition ParseInt :: "string \<Rightarrow> error + int" where
  "ParseInt s0 =
     (if s0 = [] then Inl (NumError ''ParseInt'' s0 ErrSyntax)
      else
        (let neg = (hd s0 = CHR ''-'');
             s = (if hd s0 = CHR ''+'' \<or> hd s0 = CHR ''-'' then tl s0 else s0)
         in case ParseUint s of
              Inl e \<Rightarrow>
                (if e \<noteq> ErrRange then Inl (NumError ''ParseInt'' s0 e)
                 else Inl (NumError ''ParseInt'' s0 ErrRange))
            | Inr un \<Rightarrow>
                (if \<not> neg \<and> un \<ge> 2 ^ 63 then Inl (NumError ''ParseInt'' s0 ErrRange)
                 else if neg \<and> un > 2 ^ 63 then Inl (NumError ''ParseInt'' s0 ErrRange)
                 else Inr (if neg then - int un else int un))))"

text \<open>
  The number that a string of decimal digits denotes, read from the left with the digits
  read so far in \<open>n\<close>; it states what \<open>ParseInt\<close> computes on the strings it accepts.
\<close>

fun dec_val :: "string \<Rightarrow> nat \<Rightarrow> nat" where
  "dec_val [] n = n"
| "dec_val (c # cs) n = dec_val cs (n * 10 + digit_val c)"

subsection \<open>Requests, query values, identities\<close>

record Request =
  Method :: string
  RawQuery :: string

abbreviation MethodGet :: string where "MethodGet \<equiv> ''GET''"
abbreviation MethodPost :: string where "MethodPost \<equiv> ''POST''"

text \<open>
  \<open>url.Values\<close> maps a key to the list of its values (the empty list for a key that is
  not there); \<open>Get\<close> is the first value, or the empty string.
\<close>

type_synonym Values = "string \<Rightarrow> string list"

definition Get :: "Values \<Rightarrow> string \<Rightarrow> string" where
  "Get v key = (case v key of [] \<Rightarrow> [] | x # _ \<Rightarrow> x)"

text \<open>
  The identity of the caller, as the handlers read it: \<open>id.Identity.OrgID\<close> is a string and
  \<open>id.Identity.Type\<close> a pointer to a string, which may be nil.
\<close>

record Identity_t =
  OrgID :: string
  Type :: "string option"

record XRHID =
  Identity :: Identity_t

subsection \<open>The collaborators of the server\<close>

text \<open>
  The identity adapter, the database handle and the library functions whose code is not part
  of routes.go are parameters. \<open>Count\<close> and \<open>GetEvents\<close> return a value and an error, as
  the Go functions do; the events and their JSON encoding belong to the database package.
  \<open>ParseQuery\<close> is \<open>url.ParseQuery\<close>, which returns the values it could parse together
  with the first error.
\<close>

record 'ev Server =
  GetIdentity :: "Request \<Rightarrow> error + XRHID"
  Count :: "string \<Rightarrow> string \<Rightarrow> int \<times> error option"
  GetEvents :: "int \<Rightarrow> int \<Rightarrow> 'ev \<times> error option"
  Marshal_events :: "'ev \<Rightarrow> string \<times> error option"
  ParseQuery :: "string \<Rightarrow> Values \<times> error option"
  Quote :: "string \<Rightarrow> string"

text \<open>\<open>r.URL.Query()\<close> parses \<open>RawQuery\<close> and drops the error.\<close>

definition Query :: "'ev Server \<Rightarrow> Request \<Rightarrow> Values" where
  "Query s r = fst (ParseQuery s (RawQuery r))"

subsection \<open>The response writer\<close>

text \<open>
  What has been written to the client: the header map, the status code once the header has
  been written, and the body. A piece of the body is either bytes written by a handler or
  the JSON error object of the error envelope.
\<close>

datatype chunk = Bytes string | ErrorJSON string

record ResponseWriter =
  Header :: "string \<Rightarrow> string list"
  Code :: "int option"
  Body :: "chunk list"

abbreviation StatusOK :: int where "StatusOK \<equiv> 200"
abbreviation StatusCreated :: int where "StatusCreated \<equiv> 201"
abbreviation StatusBadRequest :: int where "StatusBadRequest \<equiv> 400"
abbreviation StatusUnauthorized :: int where "StatusUnauthorized \<equiv> 401"
abbreviation StatusMethodNotAllowed :: int where "StatusMethodNotAllowed \<equiv> 405"
abbreviation StatusInternalServerError :: int where "StatusInternalServerError \<equiv> 500"

definition Header_Add :: "ResponseWriter \<Rightarrow> string \<Rightarrow> string \<Rightarrow> ResponseWriter" where
  "Header_Add w k v = w\<lparr>Header := (Header w)(k := Header w k @ [v])\<rparr>"

definition Header_Set :: "ResponseWriter \<Rightarrow> string \<Rightarrow> string \<Rightarrow> ResponseWriter" where
  "Header_Set w k v = w\<lparr>Header := (Header w)(k := [v])\<rparr>"

text \<open>The first \<open>WriteHeader\<close> fixes the status; a later one is ignored.\<close>

definition WriteHeader :: "ResponseWriter \<Rightarrow> int \<Rightarrow> ResponseWriter" where
  "WriteHeader w c = (case Code w of None \<Rightarrow> w\<lparr>Code := Some c\<rparr> | Some _ \<Rightarrow> w)"

text \<open>A write before any \<open>WriteHeader\<close> sends the status 200 first.\<close>

definition Write_chunk :: "ResponseWriter \<Rightarrow> chunk \<Rightarrow> ResponseWriter" where
  "Write_chunk w d = (let w' = WriteHeader w StatusOK in w'\<lparr>Body := Body w' @ [d]\<rparr>)"

definition Write :: "ResponseWriter \<Rightarrow> string \<Rightarrow> ResponseWriter" where
  "Write w data = Write_chunk w (Bytes data)"

text \<open>
  Modelled from the spec: \<open>formatJSONError\<close> is called by the handlers of routes.go and
  defined in a file that is not among the sources. The spec's error envelope "formats a
  uniform JSON error body plus status code": a "JSON object with at least a message field,
  returned with the stated HTTP status and Content-Type: application/json". The spec does
  not fix the bytes of that object, so the body records it as \<open>ErrorJSON msg\<close>: the
  JSON error object whose message field is \<open>msg\<close>.
\<close>

definition formatJSONError :: "ResponseWriter \<Rightarrow> int \<Rightarrow> string \<Rightarrow> ResponseWriter" where
  "formatJSONError w code msg =
     Write_chunk (WriteHeader (Header_Set w ''Content-Type'' ''application/json'') code)
       (ErrorJSON msg)"

subsection \<open>Outcomes\<close>

text \<open>
  The calls a handler makes besides writing the response: the two database lookups with
  their arguments, the error log, and the request counter of the metrics.
\<close>

datatype effect =
    DBCount string string
  | DBGetEvents int int
  | LogError string
  | IncRequests string

datatype outcome = Panic | Return ResponseWriter "effect list"


fun status :: "outcome \<Rightarrow> int option" where
  "status Panic = None"
| "status (Return w es) = Code w"

fun written :: "outcome \<Rightarrow> chunk list" where
  "written Panic = []"
| "written (Return w es) = Body w"

subsection \<open>handleChannel\<close>

record response =
  URL :: string

text \<open>
  \<open>json.Marshal\<close> of the handler's \<open>response\<close> struct. The field is one of the two literals
  of the handler, in which the encoder escapes nothing, and a struct of one string never
  fails to encode.
\<close>

definition dq :: char where "dq = CHR 0x22"
definition sq :: char where "sq = CHR 0x27"

definition Marshal_response :: "response \<Rightarrow> string \<times> error option" where
  "Marshal_response resp =
     (''{'' @ [dq] @ ''url'' @ [dq] @ '':'' @ [dq] @ URL resp @ [dq] @ ''}'', None)"

definition handleChannel :: "'ev Server \<Rightarrow> Request \<Rightarrow> ResponseWriter \<Rightarrow> outcome" where
  "handleChannel s r w =
     (let module = Get (Query s r) ''module'' in
      if length module < 1 then
        Return (formatJSONError w StatusBadRequest
                  (''missing required parameter: '' @ [sq] @ ''module'' @ [sq])) []
      else
        (let resp = \<lparr>URL = ''/release''\<rparr> in
         case GetIdentity s r of
           Inl err \<Rightarrow>
             Return (formatJSONError w StatusInternalServerError (Error (Quote s) err)) []
         | Inr ident \<Rightarrow>
             if OrgID (Identity ident) = '''' then
               Return (formatJSONError w StatusBadRequest ''missing org_id identity field'') []
             else
               (case Count s module (OrgID (Identity ident)) of
                  (count, err) \<Rightarrow>
                    (let es = DBCount module (OrgID (Identity ident)) #
                              (case err of None \<Rightarrow> [] | Some e \<Rightarrow> [LogError (Error (Quote s) e)]);
                         resp = (if count > 0 then resp\<lparr>URL := ''/testing''\<rparr> else resp)
                     in case Marshal_response resp of
                          (data, Some e) \<Rightarrow>
                            Return (formatJSONError w StatusInternalServerError
                                      (Error (Quote s) e)) es
                        | (data, None) \<Rightarrow>
                            Return (Write (Header_Add w ''Content-Type'' ''application/json'') data)
                                   (es @ [IncRequests (URL resp)])))))"

subsection \<open>handleEvent\<close>

text \<open>
  \<open>*id.Identity.Type\<close> dereferences the pointer: on nil the handler panics. \<open>int(limit)\<close>
  and \<open>int(offset)\<close> keep the value, \<open>int\<close> being 64 bits wide on the platforms the
  service is built for.
\<close>

definition handleEvent :: "'ev Server \<Rightarrow> Request \<Rightarrow> ResponseWriter \<Rightarrow> outcome" where
  "handleEvent s r w =
     (if Method r = MethodPost then Return (WriteHeader w StatusCreated) []
      else if Method r = MethodGet then
        (case GetIdentity s r of
           Inl err \<Rightarrow>
             Return (formatJSONError w StatusInternalServerError (Error (Quote s) err)) []
         | Inr ident \<Rightarrow>
             (case Type (Identity ident) of
                None \<Rightarrow> Panic
              | Some t \<Rightarrow>
                  if t \<noteq> ''Associate'' then
                    Return (formatJSONError w StatusUnauthorized '''') []
                  else
                    (case ParseQuery s (RawQuery r) of
                       (params, Some err) \<Rightarrow>
                         Return (formatJSONError w StatusBadRequest (Error (Quote s) err)) []
                     | (params, None) \<Rightarrow>
                         (let p = Get params ''limit'';
                              p = (if p = '''' then ''-1'' else p)
                          in case ParseInt p of
                               Inl err \<Rightarrow>
                                 Return (formatJSONError w StatusBadRequest
                                           (Error (Quote s) err)) []
                             | Inr limit \<Rightarrow>
                                 (let p = Get params ''offset'';
                                      p = (if p = '''' then ''0'' else p)
                                  in case ParseInt p of
                                       Inl err \<Rightarrow>
                                         Return (formatJSONError w StatusBadRequest
                                                   (Error (Quote s) err)) []
                                     | Inr offset \<Rightarrow>
                                         (case GetEvents s limit offset of
                                            (events, Some err) \<Rightarrow>
                                              Return (formatJSONError w StatusInternalServerError
                                                        (Error (Quote s) err))
                                                     [DBGetEvents limit offset]
                                          | (events, None) \<Rightarrow>
                                              (case Marshal_events s events of
                                                 (data, Some err) \<Rightarrow>
                                                   Return (formatJSONError w
                                                             StatusInternalServerError
                                                             (Error (Quote s) err))
                                                          [DBGetEvents limit offset]
                                               | (data, None) \<Rightarrow>
                                                   Return (Write (Header_Add w ''Content-Type''
                                                                    ''application/json'') data)
                                                          [DBGetEvents limit offset])))))))
      else
        Return (formatJSONError w StatusMethodNotAllowed
                  (''error: '' @ [sq] @ Method r @ [sq] @ '' not allowed'')) [])"

subsection \<open>The logging middleware\<close>

text \<open>
  The \<open>switch\<close> of \<open>log\<close> that chooses the level of the log line from the recorded status
  code: its cases are tried in the order in which they are written.
\<close>

datatype Level = ErrorLevel | WarnLevel | InfoLevel

definition log_level :: "int \<Rightarrow> Level" where
  "log_level code =
     (if code \<ge> 400 then WarnLevel
      else if code \<ge> 500 then ErrorLevel
      else InfoLevel)"

subsection \<open>routes\<close>

text \<open>
  A handler is the expression that \<open>routes\<close> builds: an endpoint handler, or a middleware
  applied to a handler. The multiplexer maps a pattern to the handler registered for it;
  \<open>HandleFunc\<close> panics on the empty pattern and on a pattern that is registered already.
\<close>

datatype handler =
    handlePing
  | handleAPI string
  | metrics handler
  | requestID handler
  | log handler
  | auth handler

type_synonym ServeMux = "string \<rightharpoonup> handler"

definition HandleFunc :: "ServeMux \<Rightarrow> string \<Rightarrow> handler \<Rightarrow> ServeMux option" where
  "HandleFunc mux pattern h =
     (if pattern = '''' then None
      else case mux pattern of
             Some _ \<Rightarrow> None
           | None \<Rightarrow> Some (mux(pattern \<mapsto> h)))"

fun routes_loop :: "ServeMux \<Rightarrow> string list \<Rightarrow> ServeMux option" where
  "routes_loop mux [] = Some mux"
| "routes_loop mux (prefix # prefixes) =
     (case HandleFunc mux (prefix @ ''/'')
             (metrics (requestID (log (auth (handleAPI prefix))))) of
        None \<Rightarrow> None
      | Some mux' \<Rightarrow> routes_loop mux' prefixes)"

definition routes :: "ServeMux \<Rightarrow> string list \<Rightarrow> ServeMux option" where
  "routes mux prefixes =
     (case HandleFunc mux ''/ping'' handlePing of
        None \<Rightarrow> None
      | Some mux' \<Rightarrow> routes_loop mux' prefixes)"

text \<open>\<open>NewServer\<close> registers the routes on a multiplexer that has no pattern yet.\<close>

definition NewServer :: "string list \<Rightarrow> ServeMux option" where
  "NewServer apiroots = routes Map.empty apiroots"

section \<open>Concrete collaborators for the examples\<close>

text \<open>
  A response writer to which nothing has been written, a query parser for queries without
  escapes (pairs separated by \<open>&\<close>, key and value by the first \<open>=\<close>, empty pairs
  skipped), a quoting function for printable ASCII, and a server whose identity adapter and
  database give fixed answers.
\<close>

definition new_writer :: ResponseWriter where
  "new_writer = \<lparr>Header = (\<lambda>k. []), Code = None, Body = []\<rparr>"

fun fields :: "char \<Rightarrow> string \<Rightarrow> string list" where
  "fields c [] = [[]]"
| "fields c (x # xs) =
     (if x = c then [] # fields c xs
      else (case fields c xs of [] \<Rightarrow> [[x]] | f # fs \<Rightarrow> (x # f) # fs))"

fun cut :: "char \<Rightarrow> string \<Rightarrow> string \<times> string" where
  "cut c [] = ([], [])"
| "cut c (x # xs) = (if x = c then ([], xs) else (case cut c xs of (a, b) \<Rightarrow> (x # a, b)))"

definition example_ParseQuery :: "string \<Rightarrow> Values \<times> error option" where
  "example_ParseQuery q =
     ((\<lambda>key. map snd (filter (\<lambda>kv. fst kv = key)
               (map (cut (CHR ''='')) (filter (\<lambda>f. f \<noteq> []) (fields (CHR ''&'') q))))),
      None)"

definition example_Quote :: "string \<Rightarrow> string" where
  "example_Quote t = [dq] @ t @ [dq]"

definition example_Server ::
  "error + XRHID \<Rightarrow> int \<times> error option \<Rightarrow> string list \<times> error option \<Rightarrow> string list Server"
where
  "example_Server ident cnt evs =
     \<lparr>GetIdentity = (\<lambda>r. ident), Count = (\<lambda>m org. cnt), GetEvents = (\<lambda>l off. evs),
      Marshal_events = (\<lambda>es. (concat es, None)), ParseQuery = example_ParseQuery,
      Quote = example_Quote\<rparr>"

definition caller :: "string \<Rightarrow> string option \<Rightarrow> error + XRHID" where
  "caller org t = Inr \<lparr>Identity = \<lparr>OrgID = org, Type = t\<rparr>\<rparr>"

definition db_error :: error where
  "db_error = ErrText ''database is closed''"

section \<open>Properties\<close>

text \<open>
  C2 (logging middleware, level of the log line). The claim asks for the error level at a
  status of 500 and above. The \<open>switch\<close> of \<open>log\<close> tests \<open>rr.Code >= 400\<close> first, so at
  the status 500 the first case is taken and the level is the warning level; the case
  \<open>rr.Code >= 500\<close> is never reached.
\<close>

theorem log_level_500_is_warning:
  "log_level StatusInternalServerError = WarnLevel \<and> log_level StatusInternalServerError \<noteq> ErrorLevel"
  by (simp add: log_level_def)

text \<open>
  The level over all status codes: the error level is chosen for no status, the warning
  level from 400 on, the info level below 400.
\<close>

lemma log_level_cases:
  "log_level code = (if 400 \<le> code then WarnLevel else InfoLevel)"
  by (simp add: log_level_def)

lemma log_level_never_error: "log_level code \<noteq> ErrorLevel"
  by (simp add: log_level_def)

subsection \<open>Writing to a writer whose header has not been written\<close>

lemma formatJSONError_unwritten:
  "Code w = None \<Longrightarrow>
   formatJSONError w c msg =
     w\<lparr>Header := (Header w)(''Content-Type'' := [''application/json'']),
       Code := Some c, Body := Body w @ [ErrorJSON msg]\<rparr>"
  by (simp add: formatJSONError_def Write_chunk_def WriteHeader_def Header_Set_def)

lemma Write_json_unwritten:
  "Code w = None \<Longrightarrow>
   Write (Header_Add w ''Content-Type'' ''application/json'') data =
     w\<lparr>Header := (Header w)(''Content-Type'' := Header w ''Content-Type'' @ [''application/json'']),
       Code := Some StatusOK, Body := Body w @ [Bytes data]\<rparr>"
  by (simp add: Write_def Write_chunk_def WriteHeader_def Header_Add_def)

lemmas example_simps =
  example_Server_def example_ParseQuery_def example_Quote_def caller_def db_error_def
  new_writer_def Get_def Query_def

subsection \<open>POST /event\<close>

text \<open>
  C1, as stated: a POST to the event endpoint is answered 201 when the event store succeeds
  and 500 when the store reports an error. The POST case of \<open>handleEvent\<close> only writes the
  status 201; it calls no store. With a database whose every operation reports an error,
  the answer to a POST is still 201 and not 500.
\<close>

theorem handleEvent_POST_store_error_counterexample:
  "status (handleEvent (example_Server (caller ''acct-1'' (Some ''User''))
                          (0, Some db_error) ([], Some db_error))
             \<lparr>Method = MethodPost, RawQuery = ''''\<rparr> new_writer) = Some StatusCreated
   \<and> status (handleEvent (example_Server (caller ''acct-1'' (Some ''User''))
                          (0, Some db_error) ([], Some db_error))
             \<lparr>Method = MethodPost, RawQuery = ''''\<rparr> new_writer) \<noteq> Some StatusInternalServerError"
  by (simp add: handleEvent_def WriteHeader_def new_writer_def)

text \<open>
  C1, amended: every POST to the event endpoint is answered 201 Created with nothing added
  to the body and no header changed, whatever the collaborators of the server would answer;
  the handler makes no call on them (the list of effects is empty).
\<close>

theorem handleEvent_POST_created:
  "Method r = MethodPost \<Longrightarrow> Code w = None \<Longrightarrow>
   handleEvent s r w = Return (w\<lparr>Code := Some StatusCreated\<rparr>) []"
  by (simp add: handleEvent_def WriteHeader_def)

theorem handleEvent_POST_created_witness:
  "Method \<lparr>Method = MethodPost, RawQuery = ''''\<rparr> = MethodPost
   \<and> Code new_writer = None
   \<and> handleEvent (example_Server (caller ''acct-1'' (Some ''User''))
                     (0, Some db_error) ([], Some db_error))
        \<lparr>Method = MethodPost, RawQuery = ''''\<rparr> new_writer
      = Return \<lparr>Header = (\<lambda>k. []), Code = Some StatusCreated, Body = []\<rparr> []"
  using handleEvent_POST_created
    [of "\<lparr>Method = MethodPost, RawQuery = ''''\<rparr>" new_writer
        "example_Server (caller ''acct-1'' (Some ''User'')) (0, Some db_error) ([], Some db_error)"]
  by (simp add: new_writer_def)

subsection \<open>/channel: the decision\<close>

text \<open>
  Past the three precondition checks, the handler looks the count up, logs the error if
  there is one, and decides on the count that came back: the body is the JSON object with
  the one field \<open>url\<close>, and the request counter is incremented for the chosen target.
\<close>

lemma handleChannel_decision:
  assumes "Get (Query s r) ''module'' = m" "m \<noteq> ''''"
    and "GetIdentity s r = Inr ident" "OrgID (Identity ident) = org" "org \<noteq> ''''"
    and "Count s m org = (c, err)"
  shows "handleChannel s r w =
    Return (Write (Header_Add w ''Content-Type'' ''application/json'')
              (''{'' @ [dq] @ ''url'' @ [dq] @ '':'' @ [dq] @
               (if c > 0 then ''/testing'' else ''/release'') @ [dq] @ ''}''))
           (DBCount m org #
            (case err of None \<Rightarrow> [] | Some e \<Rightarrow> [LogError (Error (Quote s) e)]) @
            [IncRequests (if c > 0 then ''/testing'' else ''/release'')])"
  using assms by (simp add: handleChannel_def Marshal_response_def Let_def)

text \<open>
  C3, as stated: when the count lookup returns an error, the answer is 200 with the body
  \<open>{"url":"/release"}\<close>, whatever count came back with the error. The handler logs the
  error and then tests the count it received: a lookup that returns the count 1 together
  with an error is answered with \<open>{"url":"/testing"}\<close>.
\<close>

theorem handleChannel_count_error_counterexample:
  "handleChannel (example_Server (caller ''acct-1'' (Some ''User''))
                    (1, Some db_error) ([], None))
     \<lparr>Method = MethodGet, RawQuery = ''module=insights-core''\<rparr> new_writer
   = Return \<lparr>Header = (\<lambda>k. [])(''Content-Type'' := [''application/json'']),
              Code = Some StatusOK,
              Body = [Bytes (''{'' @ [dq] @ ''url'' @ [dq] @ '':'' @ [dq] @ ''/testing'' @ [dq] @ ''}'')]\<rparr>
       [DBCount ''insights-core'' ''acct-1'', LogError ''database is closed'',
        IncRequests ''/testing'']
   \<and> written (handleChannel (example_Server (caller ''acct-1'' (Some ''User''))
                    (1, Some db_error) ([], None))
        \<lparr>Method = MethodGet, RawQuery = ''module=insights-core''\<rparr> new_writer)
     \<noteq> [Bytes (''{'' @ [dq] @ ''url'' @ [dq] @ '':'' @ [dq] @ ''/release'' @ [dq] @ ''}'')]"
  by (simp add: handleChannel_def Marshal_response_def Let_def example_simps
      Write_def Write_chunk_def WriteHeader_def Header_Add_def)

text \<open>
  C3, amended: for a request with a non-empty module parameter and an identity with a
  non-empty organization id, if the count lookup returns an error together with a count
  that is not positive (such as the zero value that Go functions return with an error), the
  error is logged and the answer is 200 with Content-Type application/json and the body
  \<open>{"url":"/release"}\<close>.
\<close>

theorem handleChannel_count_error_release:
  assumes "Get (Query s r) ''module'' = m" and "m \<noteq> ''''"
    and "GetIdentity s r = Inr ident" and "OrgID (Identity ident) = org" and "org \<noteq> ''''"
    and "Count s m org = (c, Some e)" and "c \<le> 0"
    and "Code w = None"
  shows "handleChannel s r w =
    Return (w\<lparr>Header := (Header w)(''Content-Type'' :=
                   Header w ''Content-Type'' @ [''application/json'']),
              Code := Some StatusOK,
              Body := Body w @
                [Bytes (''{'' @ [dq] @ ''url'' @ [dq] @ '':'' @ [dq] @ ''/release'' @ [dq] @ ''}'')]\<rparr>)
           [DBCount m org, LogError (Error (Quote s) e), IncRequests ''/release'']"
  using assms handleChannel_decision [of s r m ident org c "Some e" w]
  by (simp add: Write_json_unwritten)

theorem handleChannel_count_error_release_witness:
  "Get (Query (example_Server (caller ''acct-1'' (Some ''User'')) (0, Some db_error) ([], None))
         \<lparr>Method = MethodGet, RawQuery = ''module=insights-core''\<rparr>) ''module'' = ''insights-core''
   \<and> ''insights-core'' \<noteq> ''''
   \<and> GetIdentity (example_Server (caller ''acct-1'' (Some ''User'')) (0, Some db_error) ([], None))
         \<lparr>Method = MethodGet, RawQuery = ''module=insights-core''\<rparr>
       = Inr \<lparr>Identity = \<lparr>OrgID = ''acct-1'', Type = Some ''User''\<rparr>\<rparr>
   \<and> ''acct-1'' \<noteq> ''''
   \<and> Count (example_Server (caller ''acct-1'' (Some ''User'')) (0, Some db_error) ([], None))
         ''insights-core'' ''acct-1'' = (0, Some db_error)
   \<and> (0::int) \<le> 0
   \<and> Code new_writer = None
   \<and> handleChannel (example_Server (caller ''acct-1'' (Some ''User'')) (0, Some db_error) ([], None))
         \<lparr>Method = MethodGet, RawQuery = ''module=insights-core''\<rparr> new_writer
       = Return \<lparr>Header = (\<lambda>k. [])(''Content-Type'' := [''application/json'']),
                  Code = Some StatusOK,
                  Body = [Bytes (''{'' @ [dq] @ ''url'' @ [dq] @ '':'' @ [dq] @ ''/release'' @ [dq] @ ''}'')]\<rparr>
           [DBCount ''insights-core'' ''acct-1'', LogError ''database is closed'',
            IncRequests ''/release'']"
  using handleChannel_count_error_release
    [of "example_Server (caller ''acct-1'' (Some ''User'')) (0, Some db_error) ([], None)"
        "\<lparr>Method = MethodGet, RawQuery = ''module=insights-core''\<rparr>"
        "''insights-core''"
        "\<lparr>Identity = \<lparr>OrgID = ''acct-1'', Type = Some ''User''\<rparr>\<rparr>"
        "''acct-1''" 0 db_error new_writer]
  by (simp add: example_simps)

text \<open>
  C5: for a request with a non-empty module parameter and an identity with a non-empty
  organization id, when the count lookup for (module, org) succeeds, a count above zero
  gives the target \<open>/testing\<close> and any other count the target \<open>/release\<close>; the answer
  is 200 with \<open>application/json\<close> added to the Content-Type header and the body
  \<open>{"url":"<target>"}\<close> (the encoder writes no blank after the colon). The lookup is
  made once, with the module and the organization id, and the request counter is
  incremented for the target.
\<close>

theorem handleChannel_count_decides_target:
  assumes "Get (Query s r) ''module'' = m" and "m \<noteq> ''''"
    and "GetIdentity s r = Inr ident" and "OrgID (Identity ident) = org" and "org \<noteq> ''''"
    and "Count s m org = (c, None)"
    and "Code w = None"
  shows "handleChannel s r w =
    Return (w\<lparr>Header := (Header w)(''Content-Type'' :=
                   Header w ''Content-Type'' @ [''application/json'']),
              Code := Some StatusOK,
              Body := Body w @
                [Bytes (''{'' @ [dq] @ ''url'' @ [dq] @ '':'' @ [dq] @
                        (if c > 0 then ''/testing'' else ''/release'') @ [dq] @ ''}'')]\<rparr>)
           [DBCount m org, IncRequests (if c > 0 then ''/testing'' else ''/release'')]"
  using assms handleChannel_decision [of s r m ident org c None w]
  by (simp add: Write_json_unwritten)

theorem handleChannel_count_decides_target_witness:
  "Get (Query (example_Server (caller ''acct-1'' (Some ''User'')) (3, None) ([], None))
         \<lparr>Method = MethodGet, RawQuery = ''module=insights-core''\<rparr>) ''module'' = ''insights-core''
   \<and> ''insights-core'' \<noteq> ''''
   \<and> GetIdentity (example_Server (caller ''acct-1'' (Some ''User'')) (3, None) ([], None))
         \<lparr>Method = MethodGet, RawQuery = ''module=insights-core''\<rparr>
       = Inr \<lparr>Identity = \<lparr>OrgID = ''acct-1'', Type = Some ''User''\<rparr>\<rparr>
   \<and> ''acct-1'' \<noteq> ''''
   \<and> Count (example_Server (caller ''acct-1'' (Some ''User'')) (3, None) ([], None))
         ''insights-core'' ''acct-1'' = (3, None)
   \<and> Code new_writer = None
   \<and> handleChannel (example_Server (caller ''acct-1'' (Some ''User'')) (3, None) ([], None))
         \<lparr>Method = MethodGet, RawQuery = ''module=insights-core''\<rparr> new_writer
       = Return \<lparr>Header = (\<lambda>k. [])(''Content-Type'' := [''application/json'']),
                  Code = Some StatusOK,
                  Body = [Bytes (''{'' @ [dq] @ ''url'' @ [dq] @ '':'' @ [dq] @ ''/testing'' @ [dq] @ ''}'')]\<rparr>
           [DBCount ''insights-core'' ''acct-1'', IncRequests ''/testing'']"
  using handleChannel_count_decides_target
    [of "example_Server (caller ''acct-1'' (Some ''User'')) (3, None) ([], None)"
        "\<lparr>Method = MethodGet, RawQuery = ''module=insights-core''\<rparr>"
        "''insights-core''"
        "\<lparr>Identity = \<lparr>OrgID = ''acct-1'', Type = Some ''User''\<rparr>\<rparr>"
        "''acct-1''" 3 new_writer]
  by (simp add: example_simps)

subsection \<open>/channel: the precondition checks\<close>

text \<open>
  C6: the checks of \<open>handleChannel\<close>, in their order. (1) When the module parameter is
  missing or empty, the answer is 400 with the message
  \<open>missing required parameter: 'module'\<close>, whatever the identity adapter would return.
  (2) With a module, when the identity adapter fails, the answer is 500 with the text of
  the adapter's error. (3) With a module and an identity whose organization id is empty,
  the answer is 400 with the message \<open>missing org_id identity field\<close>. In each case the
  handler returns before the count lookup.
\<close>

theorem handleChannel_precondition_order:
  assumes "Code w = None"
  shows "(Get (Query s r) ''module'' = '''' \<longrightarrow>
            handleChannel s r w =
              Return (w\<lparr>Header := (Header w)(''Content-Type'' := [''application/json'']),
                        Code := Some StatusBadRequest,
                        Body := Body w @
                          [ErrorJSON (''missing required parameter: '' @ [sq] @ ''module'' @ [sq])]\<rparr>) [])
       \<and> (\<forall>err. Get (Query s r) ''module'' \<noteq> '''' \<and> GetIdentity s r = Inl err \<longrightarrow>
            handleChannel s r w =
              Return (w\<lparr>Header := (Header w)(''Content-Type'' := [''application/json'']),
                        Code := Some StatusInternalServerError,
                        Body := Body w @ [ErrorJSON (Error (Quote s) err)]\<rparr>) [])
       \<and> (\<forall>ident. Get (Query s r) ''module'' \<noteq> '''' \<and> GetIdentity s r = Inr ident \<and>
                 OrgID (Identity ident) = '''' \<longrightarrow>
            handleChannel s r w =
              Return (w\<lparr>Header := (Header w)(''Content-Type'' := [''application/json'']),
                        Code := Some StatusBadRequest,
                        Body := Body w @ [ErrorJSON ''missing org_id identity field'']\<rparr>) [])"
  using assms by (simp add: handleChannel_def Let_def formatJSONError_unwritten)

theorem handleChannel_precondition_order_witness:
  "Code new_writer = None
   \<and> Get (Query (example_Server (Inl (ErrText ''missing x-rh-identity header'')) (0, None) ([], None))
           \<lparr>Method = MethodGet, RawQuery = ''other=1''\<rparr>) ''module'' = ''''
   \<and> handleChannel (example_Server (Inl (ErrText ''missing x-rh-identity header'')) (0, None) ([], None))
         \<lparr>Method = MethodGet, RawQuery = ''other=1''\<rparr> new_writer
       = Return \<lparr>Header = (\<lambda>k. [])(''Content-Type'' := [''application/json'']),
                  Code = Some StatusBadRequest,
                  Body = [ErrorJSON (''missing required parameter: '' @ [sq] @ ''module'' @ [sq])]\<rparr> []
   \<and> Get (Query (example_Server (Inl (ErrText ''missing x-rh-identity header'')) (0, None) ([], None))
           \<lparr>Method = MethodGet, RawQuery = ''module=m''\<rparr>) ''module'' \<noteq> ''''
   \<and> handleChannel (example_Server (Inl (ErrText ''missing x-rh-identity header'')) (0, None) ([], None))
         \<lparr>Method = MethodGet, RawQuery = ''module=m''\<rparr> new_writer
       = Return \<lparr>Header = (\<lambda>k. [])(''Content-Type'' := [''application/json'']),
                  Code = Some StatusInternalServerError,
                  Body = [ErrorJSON ''missing x-rh-identity header'']\<rparr> []
   \<and> handleChannel (example_Server (caller '''' (Some ''User'')) (0, None) ([], None))
         \<lparr>Method = MethodGet, RawQuery = ''module=m''\<rparr> new_writer
       = Return \<lparr>Header = (\<lambda>k. [])(''Content-Type'' := [''application/json'']),
                  Code = Some StatusBadRequest,
                  Body = [ErrorJSON ''missing org_id identity field'']\<rparr> []"
  using
    handleChannel_precondition_order
      [of new_writer
          "example_Server (Inl (ErrText ''missing x-rh-identity header'')) (0, None) ([], None)"
          "\<lparr>Method = MethodGet, RawQuery = ''other=1''\<rparr>"]
    handleChannel_precondition_order
      [of new_writer
          "example_Server (Inl (ErrText ''missing x-rh-identity header'')) (0, None) ([], None)"
          "\<lparr>Method = MethodGet, RawQuery = ''module=m''\<rparr>"]
    handleChannel_precondition_order
      [of new_writer
          "example_Server (caller '''' (Some ''User'')) (0, None) ([], None)"
          "\<lparr>Method = MethodGet, RawQuery = ''module=m''\<rparr>"]
  by (simp add: example_simps)

subsection \<open>strconv.ParseInt on decimal numerals\<close>

text \<open>
  On a string of digits the loop of \<open>ParseUint\<close> returns the number the digits denote, or
  the range error when that number exceeds 64 bits; on any other string it fails.
\<close>

lemma dec_val_ge: "n \<le> dec_val cs n"
proof (induction cs arbitrary: n)
  case Nil
  then show ?case by simp
next
  case (Cons c cs)
  have "n \<le> n * 10 + digit_val c" by simp
  also have "\<dots> \<le> dec_val cs (n * 10 + digit_val c)" by (rule Cons.IH)
  finally show ?case by simp
qed

lemma cutoff10_overflows: "cutoff10 \<le> n \<Longrightarrow> maxVal < n * 10 + d"
  by (simp add: cutoff10_def maxVal_def)

lemma ParseUint_loop_digits:
  "list_all is_digit cs \<Longrightarrow> n \<le> maxVal \<Longrightarrow>
   ParseUint_loop cs n =
     (if dec_val cs n \<le> maxVal then Inr (dec_val cs n) else Inl ErrRange)"
proof (induction cs arbitrary: n)
  case Nil
  then show ?case by simp
next
  case (Cons c cs)
  then have dc: "is_digit c" and dcs: "list_all is_digit cs" by simp_all
  let ?n1 = "n * 10 + digit_val c"
  have ge: "?n1 \<le> dec_val cs ?n1" by (rule dec_val_ge)
  show ?case
  proof (cases "cutoff10 \<le> n")
    case True
    then have "maxVal < ?n1" by (rule cutoff10_overflows)
    with ge have "\<not> dec_val (c # cs) n \<le> maxVal" by simp
    with True dc show ?thesis by simp
  next
    case False
    show ?thesis
    proof (cases "maxVal < ?n1")
      case True
      with ge have "\<not> dec_val (c # cs) n \<le> maxVal" by simp
      with True False dc show ?thesis by (simp add: Let_def)
    next
      case over: False
      then have "?n1 \<le> maxVal" by simp
      with over False dc Cons.IH [OF dcs, of ?n1] show ?thesis by (simp add: Let_def)
    qed
  qed
qed

lemma ParseUint_loop_not_digits:
  "\<not> list_all is_digit cs \<Longrightarrow> \<exists>e. ParseUint_loop cs n = Inl e"
  by (induction cs arbitrary: n) (auto simp add: Let_def)

lemma ParseInt_int64:
  "ParseInt s = Inr v \<Longrightarrow> - (2 ^ 63) \<le> v \<and> v < 2 ^ 63"
  by (auto simp add: ParseInt_def Let_def split: if_splits sum.splits)

text \<open>
  What \<open>ParseInt\<close> accepts: a non-empty string of decimal digits, with or without one sign
  before it, whose value fits 64 signed bits; the result is that value.
\<close>

lemma ParseInt_unsigned:
  assumes "ds \<noteq> []" and "list_all is_digit ds"
  shows "ParseInt ds =
     (if dec_val ds 0 < 2 ^ 63 then Inr (int (dec_val ds 0))
      else Inl (NumError ''ParseInt'' ds ErrRange))"
proof -
  have h: "hd ds \<noteq> CHR ''+''" "hd ds \<noteq> CHR ''-''"
    using assms by (cases ds; auto simp add: is_digit_def)+
  show ?thesis
    using assms h
    by (auto simp add: ParseInt_def ParseUint_def ParseUint_loop_digits Let_def maxVal_def)
qed

lemma ParseInt_minus:
  assumes "list_all is_digit ds"
  shows "ParseInt (CHR ''-'' # ds) =
     (if ds = [] then Inl (NumError ''ParseInt'' ''-'' ErrSyntax)
      else if dec_val ds 0 \<le> 2 ^ 63 then Inr (- int (dec_val ds 0))
      else Inl (NumError ''ParseInt'' (CHR ''-'' # ds) ErrRange))"
  using assms
  by (auto simp add: ParseInt_def ParseUint_def ParseUint_loop_digits Let_def maxVal_def)

lemma ParseInt_accepts_numerals_only:
  assumes "ParseInt s = Inr v"
  shows "s \<noteq> [] \<and>
         (let ds = (if hd s = CHR ''+'' \<or> hd s = CHR ''-'' then tl s else s)
          in ds \<noteq> [] \<and> list_all is_digit ds)"
proof -
  let ?ds = "if hd s = CHR ''+'' \<or> hd s = CHR ''-'' then tl s else s"
  from assms have ne: "s \<noteq> []"
    by (auto simp add: ParseInt_def)
  from assms ne obtain un where un: "ParseUint ?ds = Inr un"
    by (auto simp add: ParseInt_def Let_def split: sum.splits if_splits)
  then have ds: "?ds \<noteq> []" and loop: "ParseUint_loop ?ds 0 = Inr un"
    by (auto simp add: ParseUint_def split: if_splits)
  have "list_all is_digit ?ds"
  proof (rule ccontr)
    assume "\<not> list_all is_digit ?ds"
    from ParseUint_loop_not_digits [OF this, of 0] loop show False by auto
  qed
  with ne ds show ?thesis by (simp add: Let_def)
qed

subsection \<open>GET /event and the other methods\<close>

text \<open>
  C4, as stated: every GET request to the event endpoint whose identity has a caller type
  that is not exactly \<open>Associate\<close> is answered 401 Unauthorized with an empty body. Two
  inputs show otherwise. An identity whose caller type is absent is not an \<open>Associate\<close>
  either, and there the dereference panics: no 401 is written. With the caller type
  \<open>User\<close> the answer is 401, but the handler answers through the error envelope, whose
  JSON object with the empty message is written to the body: the body is not empty.
\<close>

theorem handleEvent_GET_unauthorized_counterexample:
  "handleEvent (example_Server (caller ''acct-1'' None) (0, None) ([], None))
     \<lparr>Method = MethodGet, RawQuery = ''''\<rparr> new_writer = Panic
   \<and> status (handleEvent (example_Server (caller ''acct-1'' None) (0, None) ([], None))
         \<lparr>Method = MethodGet, RawQuery = ''''\<rparr> new_writer) \<noteq> Some StatusUnauthorized
   \<and> status (handleEvent (example_Server (caller ''acct-1'' (Some ''User'')) (0, None) ([], None))
         \<lparr>Method = MethodGet, RawQuery = ''''\<rparr> new_writer) = Some StatusUnauthorized
   \<and> written (handleEvent (example_Server (caller ''acct-1'' (Some ''User'')) (0, None) ([], None))
         \<lparr>Method = MethodGet, RawQuery = ''''\<rparr> new_writer) = [ErrorJSON '''']
   \<and> written (handleEvent (example_Server (caller ''acct-1'' (Some ''User'')) (0, None) ([], None))
         \<lparr>Method = MethodGet, RawQuery = ''''\<rparr> new_writer) \<noteq> []"
  by (simp add: handleEvent_def example_Server_def caller_def new_writer_def
      formatJSONError_def Write_chunk_def WriteHeader_def Header_Set_def)

text \<open>
  C4, amended: for every GET request to the event endpoint whose identity is resolved with
  a present caller type other than \<open>Associate\<close>, the answer is 401 Unauthorized through
  the error envelope: Content-Type \<open>application/json\<close>, and a body that holds the
  envelope's JSON object with the empty message and nothing else. The request's query is
  arbitrary here: the handler returns before the query is parsed, and it makes no call on
  the store.
\<close>

theorem handleEvent_GET_not_Associate_unauthorized:
  assumes "Method r = MethodGet"
    and "GetIdentity s r = Inr ident" and "Type (Identity ident) = Some t"
    and "t \<noteq> ''Associate''"
    and "Code w = None"
  shows "handleEvent s r w =
    Return (w\<lparr>Header := (Header w)(''Content-Type'' := [''application/json'']),
              Code := Some StatusUnauthorized,
              Body := Body w @ [ErrorJSON '''']\<rparr>) []"
  using assms by (simp add: handleEvent_def formatJSONError_unwritten)

theorem handleEvent_GET_not_Associate_unauthorized_witness:
  "Method \<lparr>Method = MethodGet, RawQuery = ''limit=abc&offset=2''\<rparr> = MethodGet
   \<and> GetIdentity (example_Server (caller ''acct-1'' (Some ''User'')) (0, None) ([], None))
         \<lparr>Method = MethodGet, RawQuery = ''limit=abc&offset=2''\<rparr>
       = Inr \<lparr>Identity = \<lparr>OrgID = ''acct-1'', Type = Some ''User''\<rparr>\<rparr>
   \<and> ''User'' \<noteq> ''Associate''
   \<and> Code new_writer = None
   \<and> handleEvent (example_Server (caller ''acct-1'' (Some ''User'')) (0, None) ([], None))
         \<lparr>Method = MethodGet, RawQuery = ''limit=abc&offset=2''\<rparr> new_writer
       = Return \<lparr>Header = (\<lambda>k. [])(''Content-Type'' := [''application/json'']),
                  Code = Some StatusUnauthorized, Body = [ErrorJSON '''']\<rparr> []"
  using handleEvent_GET_not_Associate_unauthorized
    [of "\<lparr>Method = MethodGet, RawQuery = ''limit=abc&offset=2''\<rparr>"
        "example_Server (caller ''acct-1'' (Some ''User'')) (0, None) ([], None)"
        "\<lparr>Identity = \<lparr>OrgID = ''acct-1'', Type = Some ''User''\<rparr>\<rparr>"
        "''User''" new_writer]
  by (simp add: example_simps)



text \<open>
  C8: for every request to the event endpoint whose method is neither POST nor GET, the
  answer is 405 Method Not Allowed through the error envelope, with the message
  \<open>error: '<METHOD>' not allowed\<close>, where \<open><METHOD>\<close> is the method of the request.
\<close>

theorem handleEvent_other_method_not_allowed:
  assumes "Method r \<noteq> MethodPost" and "Method r \<noteq> MethodGet"
    and "Code w = None"
  shows "handleEvent s r w =
    Return (w\<lparr>Header := (Header w)(''Content-Type'' := [''application/json'']),
              Code := Some StatusMethodNotAllowed,
              Body := Body w @
                [ErrorJSON (''error: '' @ [sq] @ Method r @ [sq] @ '' not allowed'')]\<rparr>) []"
  using assms by (simp add: handleEvent_def formatJSONError_unwritten)

theorem handleEvent_other_method_not_allowed_witness:
  "Method \<lparr>Method = ''PUT'', RawQuery = ''''\<rparr> \<noteq> MethodPost
   \<and> Method \<lparr>Method = ''PUT'', RawQuery = ''''\<rparr> \<noteq> MethodGet
   \<and> Code new_writer = None
   \<and> handleEvent (example_Server (caller ''acct-1'' (Some ''Associate'')) (0, None) ([], None))
         \<lparr>Method = ''PUT'', RawQuery = ''''\<rparr> new_writer
       = Return \<lparr>Header = (\<lambda>k. [])(''Content-Type'' := [''application/json'']),
                  Code = Some StatusMethodNotAllowed,
                  Body = [ErrorJSON (''error: '' @ [sq] @ ''PUT'' @ [sq] @ '' not allowed'')]\<rparr> []"
  using handleEvent_other_method_not_allowed
    [of "\<lparr>Method = ''PUT'', RawQuery = ''''\<rparr>" new_writer
        "example_Server (caller ''acct-1'' (Some ''Associate'')) (0, None) ([], None)"]
  by (simp add: new_writer_def)

text \<open>
  C10: in the GET case of the event endpoint, once the identity is resolved, the handler
  dereferences the caller type without a nil guard: it panics exactly when the caller type
  of the identity is absent. With a present caller type it returns a response (401, or the
  outcome of the later steps); with an absent one the branch that answers 401 is not
  reached, and no status is written.
\<close>

theorem handleEvent_GET_panics_iff_Type_nil:
  assumes "Method r = MethodGet" and "GetIdentity s r = Inr ident"
  shows "(handleEvent s r w = Panic) = (Type (Identity ident) = None)
       \<and> (Type (Identity ident) = None \<longrightarrow>
            status (handleEvent s r w) \<noteq> Some StatusUnauthorized)"
  using assms
  by (auto simp add: handleEvent_def Let_def
      split: option.splits sum.splits prod.splits)

theorem handleEvent_GET_panics_iff_Type_nil_witness:
  "Method \<lparr>Method = MethodGet, RawQuery = ''''\<rparr> = MethodGet
   \<and> GetIdentity (example_Server (caller ''acct-1'' None) (0, None) ([], None))
         \<lparr>Method = MethodGet, RawQuery = ''''\<rparr>
       = Inr \<lparr>Identity = \<lparr>OrgID = ''acct-1'', Type = None\<rparr>\<rparr>
   \<and> handleEvent (example_Server (caller ''acct-1'' None) (0, None) ([], None))
         \<lparr>Method = MethodGet, RawQuery = ''''\<rparr> new_writer = Panic
   \<and> status (handleEvent (example_Server (caller ''acct-1'' None) (0, None) ([], None))
         \<lparr>Method = MethodGet, RawQuery = ''''\<rparr> new_writer) \<noteq> Some StatusUnauthorized
   \<and> handleEvent (example_Server (caller ''acct-1'' (Some ''User'')) (0, None) ([], None))
         \<lparr>Method = MethodGet, RawQuery = ''''\<rparr> new_writer \<noteq> Panic"
  using
    handleEvent_GET_panics_iff_Type_nil
      [of "\<lparr>Method = MethodGet, RawQuery = ''''\<rparr>"
          "example_Server (caller ''acct-1'' None) (0, None) ([], None)"
          "\<lparr>Identity = \<lparr>OrgID = ''acct-1'', Type = None\<rparr>\<rparr>" new_writer]
    handleEvent_GET_panics_iff_Type_nil
      [of "\<lparr>Method = MethodGet, RawQuery = ''''\<rparr>"
          "example_Server (caller ''acct-1'' (Some ''User'')) (0, None) ([], None)"
          "\<lparr>Identity = \<lparr>OrgID = ''acct-1'', Type = Some ''User''\<rparr>\<rparr>" new_writer]
  by (simp add: example_Server_def caller_def)

subsection \<open>routes\<close>

text \<open>
  A pattern that ends in a slash is not \<open>/ping\<close>, and the patterns of two prefixes are
  equal only when the prefixes are.
\<close>

lemma prefix_pattern_not_ping: "prefix @ ''/'' \<noteq> ''/ping''"
proof
  assume "prefix @ ''/'' = ''/ping''"
  then have "last (prefix @ ''/'') = last ''/ping''" by simp
  then show False by simp
qed

lemma routes_loop_registers:
  assumes "distinct prefixes"
    and "\<forall>p \<in> set prefixes. mux (p @ ''/'') = None"
  shows "\<exists>mux'. routes_loop mux prefixes = Some mux'
           \<and> (\<forall>p \<in> set prefixes.
                 mux' (p @ ''/'') = Some (metrics (requestID (log (auth (handleAPI p))))))
           \<and> (\<forall>k. k \<notin> (\<lambda>p. p @ ''/'') ` set prefixes \<longrightarrow> mux' k = mux k)"
  using assms
proof (induction prefixes arbitrary: mux)
  case Nil
  then show ?case by simp
next
  case (Cons prefix prefixes)
  let ?h = "metrics (requestID (log (auth (handleAPI prefix))))"
  let ?mux1 = "mux(prefix @ ''/'' \<mapsto> ?h)"
  have reg: "HandleFunc mux (prefix @ ''/'') ?h = Some ?mux1"
    using Cons.prems(2) by (simp add: HandleFunc_def)
  have d: "distinct prefixes" and notin: "prefix \<notin> set prefixes"
    using Cons.prems(1) by simp_all
  have free: "\<forall>p \<in> set prefixes. ?mux1 (p @ ''/'') = None"
    using Cons.prems(2) notin by auto
  from Cons.IH [OF d free] obtain mux' where
    loop: "routes_loop ?mux1 prefixes = Some mux'"
    and bound: "\<forall>p \<in> set prefixes.
                  mux' (p @ ''/'') = Some (metrics (requestID (log (auth (handleAPI p)))))"
    and rest: "\<forall>k. k \<notin> (\<lambda>p. p @ ''/'') ` set prefixes \<longrightarrow> mux' k = ?mux1 k"
    by blast
  have "prefix @ ''/'' \<notin> (\<lambda>p. p @ ''/'') ` set prefixes"
    using notin by auto
  then have first: "mux' (prefix @ ''/'') = Some ?h"
    using rest by simp
  have "routes_loop mux (prefix # prefixes) = Some mux'"
    using reg loop by simp
  moreover have "\<forall>p \<in> set (prefix # prefixes).
      mux' (p @ ''/'') = Some (metrics (requestID (log (auth (handleAPI p)))))"
    using first bound by simp
  moreover have "\<forall>k. k \<notin> (\<lambda>p. p @ ''/'') ` set (prefix # prefixes) \<longrightarrow> mux' k = mux k"
    using rest by auto
  ultimately show ?case by blast
qed

text \<open>Registering the same prefix twice makes \<open>HandleFunc\<close> panic.\<close>

lemma NewServer_duplicate_prefix: "NewServer [prefix, prefix] = None"
  by (simp add: NewServer_def routes_def HandleFunc_def prefix_pattern_not_ping)

text \<open>
  C9: for prefixes that are pairwise different, \<open>routes\<close> returns, and in the multiplexer
  it leaves behind the handler bound at \<open><prefix>/\<close> is, for every prefix, the metrics
  middleware applied to the request-ID middleware applied to the logging middleware
  applied to the authentication middleware applied to the handler of the API under that
  prefix; \<open>/ping\<close> is bound to the ping handler itself, with no middleware around it,
  whatever the prefixes are; and nothing else is registered.
\<close>

theorem routes_pipeline:
  assumes "distinct prefixes"
  shows "\<exists>mux. NewServer prefixes = Some mux
           \<and> mux ''/ping'' = Some handlePing
           \<and> (\<forall>prefix \<in> set prefixes.
                 mux (prefix @ ''/'') =
                   Some (metrics (requestID (log (auth (handleAPI prefix))))))
           \<and> dom mux = insert ''/ping'' ((\<lambda>prefix. prefix @ ''/'') ` set prefixes)"
proof -
  let ?mux0 = "(Map.empty :: ServeMux)(''/ping'' \<mapsto> handlePing)"
  have ping: "HandleFunc Map.empty ''/ping'' handlePing = Some ?mux0"
    by (simp add: HandleFunc_def)
  have free: "\<forall>p \<in> set prefixes. ?mux0 (p @ ''/'') = None"
    by (simp add: prefix_pattern_not_ping)
  from routes_loop_registers [OF assms free] obtain mux where
    loop: "routes_loop ?mux0 prefixes = Some mux"
    and bound: "\<forall>p \<in> set prefixes.
                  mux (p @ ''/'') = Some (metrics (requestID (log (auth (handleAPI p)))))"
    and rest: "\<forall>k. k \<notin> (\<lambda>p. p @ ''/'') ` set prefixes \<longrightarrow> mux k = ?mux0 k"
    by blast
  have new: "NewServer prefixes = Some mux"
    using ping loop by (simp add: NewServer_def routes_def)
  have "''/ping'' \<notin> (\<lambda>p. p @ ''/'') ` set prefixes"
    using prefix_pattern_not_ping by (auto dest: sym)
  then have p: "mux ''/ping'' = Some handlePing"
    using rest by simp
  have dom: "dom mux = insert ''/ping'' ((\<lambda>prefix. prefix @ ''/'') ` set prefixes)"
  proof (rule set_eqI)
    fix k
    show "k \<in> dom mux \<longleftrightarrow> k \<in> insert ''/ping'' ((\<lambda>prefix. prefix @ ''/'') ` set prefixes)"
    proof (cases "k \<in> (\<lambda>p. p @ ''/'') ` set prefixes")
      case True
      then show ?thesis using bound by auto
    next
      case False
      then have "mux k = ?mux0 k" using rest by simp
      then show ?thesis using False by (auto split: if_splits)
    qed
  qed
  show ?thesis using new p bound dom by blast
qed

theorem routes_pipeline_witness:
  "distinct [''/api'', ''/r/insights/platform'']
   \<and> (\<exists>mux. NewServer [''/api'', ''/r/insights/platform''] = Some mux
          \<and> mux ''/ping'' = Some handlePing
          \<and> mux ''/api/'' = Some (metrics (requestID (log (auth (handleAPI ''/api'')))))
          \<and> mux ''/r/insights/platform/'' =
              Some (metrics (requestID (log (auth (handleAPI ''/r/insights/platform'')))))
          \<and> dom mux = {''/ping'', ''/api/'', ''/r/insights/platform/''})"
  using routes_pipeline [of "[''/api'', ''/r/insights/platform'']"]
  by simp

end
